theory Spec2Isabelle
  imports Main
begin

section \<open>Python values used by xsd2sqlschemaerd.py\<close>

text \<open>
  Python strings are modelled as \<^typ>\<open>string\<close>; a character stands for a code point
  below 256. A value that may be \<open>None\<close> is a \<^typ>\<open>string option\<close>. Every exception the
  modelled code can raise is a constructor of \<open>error\<close>, and a function that can raise
  returns \<open>error + 'a\<close>.
\<close>

datatype error =
    TypeError
  | AttributeError
  | KeyError
  | ValueError
  | IndexError
  | InvalidXMLType
  | NetworkXError
  | NetworkXUnfeasible

text \<open>\<open>str.isspace\<close> for one character (code points below 256).\<close>

definition py_isspace :: "char \<Rightarrow> bool" where
  "py_isspace c = (of_char c \<in> {9, 10, 11, 12, 13, 28, 29, 30, 31, 32, 133, 160 :: nat})"

text \<open>\<open>str.lstrip()\<close> without argument.\<close>

definition lstrip :: "string \<Rightarrow> string" where
  "lstrip s = dropWhile py_isspace s"

text \<open>
  \<open>str.replace(old, new)\<close>. The counter is the number of characters of a match of
  \<open>old\<close> still to be skipped. An empty \<open>old\<close> puts \<open>new\<close> before every character and at
  the end, as Python does.
\<close>

fun replace_from :: "string \<Rightarrow> string \<Rightarrow> nat \<Rightarrow> string \<Rightarrow> string" where
  "replace_from old new k [] = []"
| "replace_from old new (Suc k) (c # s) = replace_from old new k s"
| "replace_from old new 0 (c # s) =
     (if take (length old) (c # s) = old
      then new @ replace_from old new (length old - 1) s
      else c # replace_from old new 0 s)"

definition py_replace :: "string \<Rightarrow> string \<Rightarrow> string \<Rightarrow> string" where
  "py_replace old new s =
     (if old = [] then new @ concat (map (\<lambda>c. c # new) s)
      else replace_from old new 0 s)"

text \<open>
  \<open>str.split(sep)\<close> for a non-empty separator; \<open>cur\<close> is the piece being read,
  reversed.
\<close>

fun split_from :: "string \<Rightarrow> nat \<Rightarrow> string \<Rightarrow> string \<Rightarrow> string list" where
  "split_from sep k cur [] = [rev cur]"
| "split_from sep (Suc k) cur (c # s) = split_from sep k cur s"
| "split_from sep 0 cur (c # s) =
     (if take (length sep) (c # s) = sep
      then rev cur # split_from sep (length sep - 1) [] s
      else split_from sep 0 (c # cur) s)"

text \<open>
  Every call of \<open>split\<close> in the modelled code passes a literal, non-empty separator
  (Python raises \<open>ValueError\<close> on an empty one).
\<close>

definition py_split :: "string \<Rightarrow> string \<Rightarrow> string list" where
  "py_split sep s = split_from sep 0 [] s"

text \<open>\<open>str.split(c, 1)\<close> for a separator of one character.\<close>

definition py_split1 :: "char \<Rightarrow> string \<Rightarrow> string list" where
  "py_split1 c s =
     (if c \<in> set s
      then [takeWhile (\<lambda>x. x \<noteq> c) s, tl (dropWhile (\<lambda>x. x \<noteq> c) s)]
      else [s])"

text \<open>
  A \<open>dict\<close> read only through \<open>keys()\<close>, \<open>values()\<close> and \<open>get\<close> is an association
  list; the first pair of a key is the binding.
\<close>

type_synonym 'v pydict = "(string \<times> 'v) list"

definition dict_keys :: "'v pydict \<Rightarrow> string list" where
  "dict_keys d = remdups (map fst d)"

definition dict_values :: "'v pydict \<Rightarrow> 'v list" where
  "dict_values d = concat (map (\<lambda>k. case map_of d k of None \<Rightarrow> [] | Some v \<Rightarrow> [v]) (dict_keys d))"

section \<open>Identifier normalizer\<close>

text \<open>
  \<open>process_prefix(value, namespace_dict, ns)\<close>. \<open>namespace_dict.get(ns)\<close> is \<open>None\<close>
  for a missing key, and \<open>None.replace\<close> raises \<open>AttributeError\<close>.
\<close>

definition process_prefix :: "string \<Rightarrow> string pydict \<Rightarrow> string \<Rightarrow> error + string" where
  "process_prefix value namespace_dict ns =
     (case py_split1 CHR '':'' value of
        [prefix, rest] \<Rightarrow>
          (if (prefix @ '':'') \<in> set (dict_values namespace_dict)
           then Inr (prefix @ ''_'' @ rest)
           else (case map_of namespace_dict ns of
                   None \<Rightarrow> Inl AttributeError
                 | Some p \<Rightarrow> Inr (py_replace '':'' [] p @ ''_'' @ rest)))
      | _ \<Rightarrow>
          (case map_of namespace_dict ns of
             None \<Rightarrow> Inl AttributeError
           | Some p \<Rightarrow> Inr (py_replace '':'' [] p @ ''_'' @ value)))"

text \<open>
  \<open>sql_normalize(string, ns)\<close>; the global \<open>NAMESPACE_DICT\<close> is the third argument.
\<close>

definition sql_normalize :: "string option \<Rightarrow> string option \<Rightarrow> string pydict \<Rightarrow> error + string" where
  "sql_normalize string ns NAMESPACE_DICT =
     (let s0 = (case string of None \<Rightarrow> [] | Some s \<Rightarrow> s);
          s1 = lstrip s0;
          s2 = py_replace ''-'' ''_'' s1;
          s3 = py_replace ''.'' ''_'' s2;
          s4 = py_replace '' '' ''_'' s3
      in case ns of
           None \<Rightarrow> Inr s4
         | Some n \<Rightarrow>
             if length (dict_keys NAMESPACE_DICT) > 1 \<and> lstrip n \<noteq> [] \<and> lstrip s4 \<noteq> []
             then process_prefix s4 NAMESPACE_DICT n
             else Inr s4)"

text \<open>Sequencing of computations that can raise: the first error aborts.\<close>

definition bind_err :: "error + 'a \<Rightarrow> ('a \<Rightarrow> error + 'b) \<Rightarrow> error + 'b" where
  "bind_err m f = (case m of Inl e \<Rightarrow> Inl e | Inr x \<Rightarrow> f x)"

section \<open>Integers read from and written to strings\<close>

definition is_ascii_digit :: "char \<Rightarrow> bool" where
  "is_ascii_digit c = (48 \<le> (of_char c :: nat) \<and> (of_char c :: nat) \<le> 57)"

text \<open>\<open>str.isdigit()\<close>: below code point 256 the superscripts two, three and one count too.\<close>

definition py_isdigit :: "string \<Rightarrow> bool" where
  "py_isdigit s =
     (s \<noteq> [] \<and> list_all (\<lambda>c. is_ascii_digit c \<or> of_char c \<in> {178, 179, 185 :: nat}) s)"

definition strip :: "string \<Rightarrow> string" where
  "strip s = rev (dropWhile py_isspace (rev (dropWhile py_isspace s)))"

text \<open>
  The digits of an integer literal: decimal digits, single underscores allowed between
  two digits. The flag says that the previous character was a digit.
\<close>

fun digits_ok :: "bool \<Rightarrow> string \<Rightarrow> bool" where
  "digits_ok prev [] = prev"
| "digits_ok prev (c # s) =
     (if is_ascii_digit c then digits_ok True s
      else if c = CHR ''_'' \<and> prev then digits_ok False s
      else False)"

definition digits_value :: "string \<Rightarrow> int" where
  "digits_value s = foldl (\<lambda>a c. 10 * a + (int (of_char c) - 48)) 0 s"

text \<open>
  \<open>int(s)\<close> for a string: surrounding whitespace is dropped, one sign is allowed,
  anything else raises \<open>ValueError\<close>. (CPython's limit on the number of digits is not
  modelled.)
\<close>

definition py_int :: "string \<Rightarrow> error + int" where
  "py_int s =
     (let t = strip s;
          neg = (t \<noteq> [] \<and> hd t = CHR ''-'');
          body = (if t \<noteq> [] \<and> (hd t = CHR ''-'' \<or> hd t = CHR ''+'') then tl t else t)
      in if digits_ok False body
         then Inr ((if neg then -1 else 1) * digits_value (filter (\<lambda>c. c \<noteq> CHR ''_'') body))
         else Inl ValueError)"

fun nat_digits :: "nat \<Rightarrow> string" where
  "nat_digits n =
     (if n < 10 then [char_of (48 + n)]
      else nat_digits (n div 10) @ [char_of (48 + n mod 10)])"

text \<open>\<open>str(i)\<close> of an integer, as an f-string or \<open>%s\<close> writes it.\<close>

definition py_str_int :: "int \<Rightarrow> string" where
  "py_str_int i = (if i < 0 then CHR ''-'' # nat_digits (nat (- i)) else nat_digits (nat i))"

text \<open>\<open>str.lower()\<close> for one character (code points below 256).\<close>

definition py_lower_char :: "char \<Rightarrow> char" where
  "py_lower_char c =
     (let n = (of_char c :: nat)
      in if (65 \<le> n \<and> n \<le> 90) \<or> (192 \<le> n \<and> n \<le> 222 \<and> n \<noteq> 215) then char_of (n + 32) else c)"

definition py_lower :: "string \<Rightarrow> string" where
  "py_lower s = map py_lower_char s"

section \<open>Table and column accumulator\<close>

text \<open>
  The globals \<open>TABLE_COLUMNS\<close> (a dict of sets of column definitions) and
  \<open>HASH_TABLE_TABLES_GENERATED\<close>. The relationship dictionary is a separate
  argument of the source and stays one here.
\<close>

record state =
  TABLE_COLUMNS :: "string \<rightharpoonup> string set"
  HASH_TABLE_TABLES_GENERATED :: "string \<rightharpoonup> int"

type_synonym relationships = "string \<rightharpoonup> (string \<times> string) list"

text \<open>An XML element is read only through \<open>el.get(attribute)\<close>.\<close>

type_synonym element = "string \<rightharpoonup> string"

definition el_get :: "element \<Rightarrow> string \<Rightarrow> string \<Rightarrow> string" where
  "el_get el a dflt = (case el a of None \<Rightarrow> dflt | Some v \<Rightarrow> v)"

text \<open>\<open>create_primary_key(table_name, ns)\<close>; \<open>None + 'Id'\<close> raises \<open>TypeError\<close>.\<close>

definition create_primary_key :: "string option \<Rightarrow> string option \<Rightarrow> string pydict \<Rightarrow> error + string" where
  "create_primary_key table_name ns NAMESPACE_DICT =
     (case table_name of
        None \<Rightarrow> Inl TypeError
      | Some t \<Rightarrow>
          bind_err (sql_normalize (Some (t @ ''Id'')) ns NAMESPACE_DICT)
            (\<lambda>n. Inr (n @ '' bigint PRIMARY KEY NOT NULL'')))"

text \<open>\<open>create_table_in_sql_sentence(cols, table_name, ns)\<close>.\<close>

definition create_table_in_sql_sentence ::
  "string option \<Rightarrow> string option \<Rightarrow> string option \<Rightarrow> string pydict \<Rightarrow> state \<Rightarrow> error + state" where
  "create_table_in_sql_sentence cols table_name ns NAMESPACE_DICT st =
     bind_err (create_primary_key table_name ns NAMESPACE_DICT) (\<lambda>normalized_table_id.
     bind_err (sql_normalize table_name ns NAMESPACE_DICT) (\<lambda>normalized_table_name.
       let new_cols =
             (case cols of
                None \<Rightarrow> [normalized_table_id]
              | Some c \<Rightarrow>
                  if lstrip c \<noteq> [] then [normalized_table_id] @ py_split '', '' c
                  else [normalized_table_id]);
           columns =
             (case TABLE_COLUMNS st normalized_table_name of
                Some existing_cols_set \<Rightarrow> existing_cols_set \<union> set new_cols
              | None \<Rightarrow> set new_cols)
       in Inr (st\<lparr>TABLE_COLUMNS := (TABLE_COLUMNS st)(normalized_table_name \<mapsto> columns),
                  HASH_TABLE_TABLES_GENERATED :=
                    (HASH_TABLE_TABLES_GENERATED st)(normalized_table_name \<mapsto> 1)\<rparr>)))"

text \<open>\<open>table_was_created(el, ns)\<close>.\<close>

definition table_was_created :: "element \<Rightarrow> string option \<Rightarrow> string pydict \<Rightarrow> state \<Rightarrow> error + bool" where
  "table_was_created el ns NAMESPACE_DICT st =
     bind_err (sql_normalize (el ''name'') ns NAMESPACE_DICT)
       (\<lambda>n. Inr (HASH_TABLE_TABLES_GENERATED st n \<noteq> None))"

section \<open>Foreign-key and cardinality resolver\<close>

text \<open>\<open>generate_str_counter_choice(counter_choice)\<close>.\<close>

definition generate_str_counter_choice :: "int \<Rightarrow> string" where
  "generate_str_counter_choice counter_choice =
     (if counter_choice > 0 then ''/*counter_choice='' @ py_str_int counter_choice @ ''*/'' else [])"

text \<open>\<open>get_nullable_attribute(el, col_definition)\<close>.\<close>

definition get_nullable_attribute :: "element \<Rightarrow> string \<Rightarrow> error + string" where
  "get_nullable_attribute el col_definition =
     bind_err (py_int (el_get el ''minOccurs'' ''1'')) (\<lambda>min_occurs.
       let nillable = (py_lower (el_get el ''nillable'' ''false'') = ''true'')
       in if min_occurs = 0 \<or> nillable then Inr (col_definition @ '' NULL'')
          else Inr (col_definition @ '' NOT NULL''))"

text \<open>\<open>get_nullable_attribute_from_col_definition(counter_choice, el, col_definition)\<close>.\<close>

definition get_nullable_attribute_from_col_definition :: "int \<Rightarrow> element \<Rightarrow> string \<Rightarrow> error + string" where
  "get_nullable_attribute_from_col_definition counter_choice el col_definition =
     (if counter_choice > 0
      then Inr (col_definition @ '' NULL'' @ generate_str_counter_choice counter_choice)
      else get_nullable_attribute el col_definition)"

text \<open>\<open>get_foreign_key_name(field_fk_name, parent_table_fk)\<close>.\<close>

definition get_foreign_key_name :: "string \<Rightarrow> string \<Rightarrow> string" where
  "get_foreign_key_name field_fk_name parent_table_fk = ''FK_'' @ parent_table_fk @ ''_'' @ field_fk_name"

text \<open>\<open>remove_relationship_dict_relationships\<close> and \<open>add_relationship_dict_relationships\<close>.\<close>

definition remove_relationship_dict_relationships :: "relationships \<Rightarrow> string \<Rightarrow> string \<Rightarrow> relationships" where
  "remove_relationship_dict_relationships dict_relationships parent_table foreign_key_name =
     (let key = parent_table @ '';'' @ foreign_key_name
      in if dict_relationships key \<noteq> None then dict_relationships(key := None)
         else dict_relationships)"

definition add_relationship_dict_relationships ::
  "relationships \<Rightarrow> string \<Rightarrow> string \<Rightarrow> string \<Rightarrow> string \<Rightarrow> bool \<Rightarrow> relationships" where
  "add_relationship_dict_relationships dict_relationships parent_table foreign_key_name
       table_reference_name cardinality replace_previous_relationship =
     (let key = parent_table @ '';'' @ foreign_key_name
      in if dict_relationships key = None \<or> replace_previous_relationship
         then dict_relationships(key \<mapsto> [(table_reference_name, cardinality)])
         else dict_relationships)"

text \<open>
  \<open>get_cardinality(element)\<close>. The upper bound is \<open>'*'\<close> or an integer; both are
  written with \<open>str\<close> by the f-string.
\<close>

datatype max_occurs = Star | Bound int

definition get_cardinality :: "element \<Rightarrow> error + string" where
  "get_cardinality element =
     bind_err (py_int (el_get element ''minOccurs'' ''1'')) (\<lambda>min_occurs.
     bind_err (if el_get element ''maxOccurs'' ''1'' = ''unbounded'' then Inr Star
               else bind_err (py_int (el_get element ''maxOccurs'' ''1'')) (\<lambda>m. Inr (Bound m)))
       (\<lambda>max_occurs.
          if min_occurs = 1 \<and> max_occurs = Star then Inr ''1..*''
          else if min_occurs = 0 \<and> max_occurs = Bound 1 then Inr ''0..1''
          else Inr (py_str_int min_occurs @ ''..'' @
                    (case max_occurs of Star \<Rightarrow> ''*'' | Bound m \<Rightarrow> py_str_int m))))"

text \<open>\<open>cardinality_right_is_n(cardinality)\<close>; \<open>s[1]\<close> raises \<open>IndexError\<close> on a short list.\<close>

definition cardinality_right_is_n :: "string \<Rightarrow> error + bool" where
  "cardinality_right_is_n cardinality =
     (case py_split ''..'' cardinality of
        _ # s1 # _ \<Rightarrow>
          if s1 = ''*'' then Inr True
          else if py_isdigit s1 then bind_err (py_int s1) (\<lambda>n. Inr (n > 1))
          else Inr False
      | _ \<Rightarrow> Inl IndexError)"

text \<open>\<open>get_parent_table_name(parent, ns)\<close>.\<close>

definition get_parent_table_name :: "string option \<Rightarrow> string option \<Rightarrow> string pydict \<Rightarrow> error + string" where
  "get_parent_table_name parent ns NAMESPACE_DICT =
     (case parent of None \<Rightarrow> Inr [] | Some p \<Rightarrow> sql_normalize (Some p) ns NAMESPACE_DICT)"

text \<open>\<open>not cols or cols.lstrip() == ''\<close>.\<close>

definition cols_blank :: "string option \<Rightarrow> bool" where
  "cols_blank cols = (case cols of None \<Rightarrow> True | Some c \<Rightarrow> lstrip c = [])"

text \<open>
  \<open>create_fk_field(el, cols, parent, field_fk_name, table_reference_name,
  counter_choice, dict_relationships, ns)\<close>. It returns the columns of the current
  level and leaves its effects in the relationship dictionary and in the globals.
  \<open>field_fk_name + 'Id'\<close> raises \<open>TypeError\<close> when the name is \<open>None\<close>.
\<close>

definition create_fk_field ::
  "element \<Rightarrow> string option \<Rightarrow> string option \<Rightarrow> string option \<Rightarrow> string option \<Rightarrow> int \<Rightarrow>
   relationships \<Rightarrow> string option \<Rightarrow> string pydict \<Rightarrow> state \<Rightarrow>
   error + (string option \<times> relationships \<times> state)" where
  "create_fk_field el cols parent field_fk_name table_reference_name counter_choice
       dict_relationships ns NAMESPACE_DICT st =
     (case field_fk_name of
        None \<Rightarrow> Inl TypeError
      | Some field \<Rightarrow>
     bind_err (sql_normalize (Some (field @ ''Id'')) ns NAMESPACE_DICT) (\<lambda>fk_field_normalized.
     bind_err (get_parent_table_name parent ns NAMESPACE_DICT) (\<lambda>parent_table_fk.
     bind_err (sql_normalize table_reference_name ns NAMESPACE_DICT) (\<lambda>table_reference_name_fk_normalized.
     let foreign_key_name = get_foreign_key_name fk_field_normalized parent_table_fk in
     bind_err (get_cardinality el) (\<lambda>cardinality.
     bind_err (cardinality_right_is_n cardinality) (\<lambda>right_is_n.
       if right_is_n then
         (let foreign_key_name_update = get_foreign_key_name field parent_table_fk;
              d1 = remove_relationship_dict_relationships dict_relationships parent_table_fk
                     foreign_key_name;
              d2 = add_relationship_dict_relationships d1 parent_table_fk foreign_key_name_update
                     table_reference_name_fk_normalized cardinality True;
              new_col_name = parent_table_fk @ ''Id'' @ ''_'' @ py_str_int 0
          in bind_err (get_nullable_attribute_from_col_definition counter_choice el
                         (new_col_name @ '' bigint'')) (\<lambda>new_col_definition.
             let cols_update = new_col_definition @ '', '' @ ''CONSTRAINT '' @ foreign_key_name_update @
                     '' FOREIGN KEY ('' @ new_col_name @ '') REFERENCES '' @ parent_table_fk @
                     ''('' @ parent_table_fk @ ''Id'' @ '')''
             in bind_err (create_table_in_sql_sentence (Some cols_update) table_reference_name ns
                            NAMESPACE_DICT st) (\<lambda>st'.
                if cols_blank cols
                then bind_err (create_primary_key parent ns NAMESPACE_DICT)
                       (\<lambda>pk. Inr (Some pk, d2, st'))
                else Inr (cols, d2, st'))))
       else
         (let d1 = add_relationship_dict_relationships dict_relationships parent_table_fk
                     foreign_key_name table_reference_name_fk_normalized cardinality False
          in bind_err (get_nullable_attribute_from_col_definition counter_choice el
                         (fk_field_normalized @ '' bigint'')) (\<lambda>new_col_definition.
             let cols1 = (case cols of
                            None \<Rightarrow> new_col_definition
                          | Some c \<Rightarrow>
                              if lstrip c = [] then new_col_definition
                              else c @ '', '' @ new_col_definition);
                 cols2 = cols1 @ '', CONSTRAINT '' @ foreign_key_name @ '' FOREIGN KEY ('' @
                     fk_field_normalized @ '') REFERENCES '' @ table_reference_name_fk_normalized @
                     ''('' @ table_reference_name_fk_normalized @ ''Id'' @ '')''
             in bind_err (create_table_in_sql_sentence (Some []) table_reference_name ns
                            NAMESPACE_DICT st)
                  (\<lambda>st'. Inr (Some cols2, d1, st'))))))))))"

section \<open>Type registry\<close>

text \<open>
  The class \<open>SDict\<close>: both \<open>__getitem__\<close> and \<open>get\<close> compute
  \<open>dict.__getitem__(self, item) % self\<close>, and \<open>get\<close> catches \<open>KeyError\<close> only.
  \<open>None % self\<close> raises \<open>TypeError\<close>. A string without a per cent sign is its own
  value under \<open>%\<close>; no value of the table below has one, and a value that has one is
  outside this model (reported as \<open>ValueError\<close>).
\<close>

definition percent_self :: "string option \<Rightarrow> error + string" where
  "percent_self v =
     (case v of
        None \<Rightarrow> Inl TypeError
      | Some s \<Rightarrow> if CHR ''%'' \<in> set s then Inl ValueError else Inr s)"

definition SDict_get :: "string option pydict \<Rightarrow> string \<Rightarrow> error + string option" where
  "SDict_get d item =
     (case map_of d item of
        None \<Rightarrow> Inr None
      | Some v \<Rightarrow> bind_err (percent_self v) (\<lambda>r. Inr (Some r)))"

definition DEFX2SQLSERVER :: "string option pydict" where
  "DEFX2SQLSERVER =
     [(''string'', Some ''nvarchar(max)''),
      (''boolean'', Some ''bit''),
      (''decimal'', Some ''decimal(18,2)''),
      (''float'', Some ''float''),
      (''double'', Some ''float''),
      (''duration'', Some ''time''),
      (''dateTime'', Some ''datetime2''),
      (''time'', Some ''time''),
      (''date'', Some ''date''),
      (''gYearMonth'', Some ''datetime2''),
      (''gYear'', Some ''datetime2''),
      (''gMonthDay'', Some ''datetime2''),
      (''gDay'', Some ''datetime2''),
      (''gMonth'', Some ''datetime2''),
      (''hexBinary'', Some ''varbinary(max)''),
      (''base64Binary'', Some ''varbinary(max)''),
      (''anyURI'', Some ''nvarchar(max)''),
      (''QName'', None),
      (''NOTATION'', None),
      (''normalizedString'', Some ''nvarchar(max)''),
      (''token'', Some ''nvarchar(max)''),
      (''language'', Some ''nvarchar(max)''),
      (''NMTOKEN'', None),
      (''NMTOKENS'', None),
      (''Name'', Some ''nvarchar(max)''),
      (''NCName'', Some ''nvarchar(max)''),
      (''ID'', None),
      (''IDREF'', None),
      (''IDREFS'', None),
      (''ENTITY'', None),
      (''ENTITIES'', None),
      (''integer'', Some ''bigint''),
      (''nonPositiveInteger'', Some ''bigint''),
      (''negativeInteger'', Some ''bigint''),
      (''long'', Some ''bigint''),
      (''int'', Some ''int''),
      (''short'', Some ''smallint''),
      (''byte'', Some ''tinyint''),
      (''nonNegativeInteger'', Some ''bigint''),
      (''unsignedLong'', Some ''bigint''),
      (''unsignedInt'', Some ''int''),
      (''unsignedShort'', Some ''smallint''),
      (''unsignedByte'', Some ''tinyint''),
      (''positiveInteger'', Some ''bigint'')]"

text \<open>The unsupported built-in categories: the keys the table binds to \<open>None\<close>.\<close>

definition unsupported_types :: "string list" where
  "unsupported_types =
     [''QName'', ''NOTATION'', ''NMTOKEN'', ''NMTOKENS'', ''ID'', ''IDREF'', ''IDREFS'',
      ''ENTITY'', ''ENTITIES'']"

section \<open>Schema walker: one element\<close>

text \<open>Python truth of an optional string, and \<open>a or b\<close>.\<close>

definition truthy :: "string option \<Rightarrow> bool" where
  "truthy v = (case v of None \<Rightarrow> False | Some s \<Rightarrow> s \<noteq> [])"

definition py_or :: "string option \<Rightarrow> string option \<Rightarrow> string option" where
  "py_or a b = (if truthy a then a else b)"

text \<open>
  \<open>is_complex_type(root, ns, type_name)\<close>. The document is read only through the
  \<open>name\<close> attributes of its \<open>complexType\<close> descendants, which is what \<open>root\<close> is here.
\<close>

definition is_complex_type :: "string option list \<Rightarrow> string option \<Rightarrow> bool" where
  "is_complex_type root type_name =
     (case type_name of None \<Rightarrow> False | Some t \<Rightarrow> Some t \<in> set root)"

text \<open>\<open>parent is not None and parent.lstrip() != ""\<close>.\<close>

definition parent_named :: "string option \<Rightarrow> bool" where
  "parent_named parent = (case parent of None \<Rightarrow> False | Some p \<Rightarrow> lstrip p \<noteq> [])"

text \<open>\<open>concat_cols(cols, previous_cols)\<close>.\<close>

definition concat_cols :: "string option \<Rightarrow> string option \<Rightarrow> string option" where
  "concat_cols cols previous_cols =
     (case previous_cols of
        None \<Rightarrow> cols
      | Some p \<Rightarrow>
          if lstrip p = [] then cols
          else (case cols of
                  None \<Rightarrow> Some p
                | Some c \<Rightarrow> if lstrip c \<noteq> [] then Some (c @ '', '' @ p) else Some p))"

text \<open>
  \<open>process_element(el, parent, fail, normalize, counter_choice, cols, ns, root,
  dict_relationships)\<close>. The globals \<open>NAMESPACE_DICT\<close> and \<open>USER_TYPES\<close> are arguments;
  \<open>last_test\<close> is the last \<open>if\<close> of the function, reached when neither the
  \<open>raise\<close> nor the \<open>elif sql_type\<close> branch is taken.
  The result \<open>None\<close> in the first component is Python's \<open>None\<close>, which the function
  returns when it reaches its end without a \<open>return\<close>.
\<close>

definition process_element ::
  "element \<Rightarrow> string option \<Rightarrow> bool \<Rightarrow> bool \<Rightarrow> int \<Rightarrow> string option \<Rightarrow> string option \<Rightarrow>
   string option list \<Rightarrow> relationships \<Rightarrow> string pydict \<Rightarrow> (string \<rightharpoonup> string option) \<Rightarrow> state \<Rightarrow>
   error + (string option \<times> relationships \<times> state)" where
  "process_element el parent fail normalize_names counter_choice cols ns root dict_relationships
       NAMESPACE_DICT USER_TYPES st =
     bind_err (sql_normalize (el ''name'') ns NAMESPACE_DICT) (\<lambda>ns_table_name.
     if HASH_TABLE_TABLES_GENERATED st ns_table_name \<noteq> None \<and> parent \<noteq> None \<and> parent \<noteq> Some []
     then create_fk_field el cols parent (el ''name'') (el ''name'') counter_choice
            dict_relationships ns NAMESPACE_DICT st
     else if parent_named parent \<and> is_complex_type root (el ''name'')
     then create_fk_field el cols parent (el ''name'') (el ''name'') counter_choice
            dict_relationships ns NAMESPACE_DICT st
     else
       let thisType =
             (case py_or (el ''type'') (py_or (el ''ref'') (Some ''string'')) of
                None \<Rightarrow> ''string'' | Some t \<Rightarrow> t);
           last_test =
             (if parent_named parent \<and> is_complex_type root (Some thisType)
              then create_fk_field el cols parent (el ''name'') (Some thisType)
                     counter_choice dict_relationships ns NAMESPACE_DICT st
              else Inr (None, dict_relationships, st))
       in if el ''ref'' \<noteq> None
          then create_fk_field el cols parent (py_or (el ''name'') (el ''ref'')) (Some thisType)
                 counter_choice dict_relationships ns NAMESPACE_DICT st
          else
     bind_err (case ns of
                 None \<Rightarrow> Inl KeyError
               | Some n \<Rightarrow> (case map_of NAMESPACE_DICT n of
                              None \<Rightarrow> Inl KeyError | Some p \<Rightarrow> Inr p)) (\<lambda>prefix.
     let k = py_replace prefix [] thisType in
     bind_err (SDict_get DEFX2SQLSERVER k) (\<lambda>builtin.
     bind_err (if truthy builtin then Inr builtin
               else bind_err (sql_normalize (Some k) ns NAMESPACE_DICT) (\<lambda>nk.
                      let user = (case USER_TYPES nk of None \<Rightarrow> None | Some v \<Rightarrow> v)
                      in Inr (if truthy user then user else None))) (\<lambda>sql_type.
       if \<not> truthy sql_type \<and> fail then Inl InvalidXMLType
       else (case sql_type of
               None \<Rightarrow> last_test
             | Some t \<Rightarrow>
                 if t = [] then last_test
                 else
                 bind_err (if Some t \<notin> set (dict_values DEFX2SQLSERVER)
                           then SDict_get DEFX2SQLSERVER t else Inr (Some t)) (\<lambda>sql_type2.
                 if \<not> truthy sql_type2 \<and> fail then Inl InvalidXMLType
                 else (case py_or (el ''name'') (el ''ref'') of
                         None \<Rightarrow> Inr (cols, dict_relationships, st)
                       | Some col_name \<Rightarrow>
                           bind_err (if normalize_names
                                     then sql_normalize (Some col_name) ns NAMESPACE_DICT
                                     else Inr col_name) (\<lambda>col_name'.
                           bind_err (get_nullable_attribute_from_col_definition counter_choice el
                                       (col_name' @ '' '' @
                                        (case sql_type2 of None \<Rightarrow> ''None'' | Some t2 \<Rightarrow> t2)))
                             (\<lambda>col_definition.
                                Inr ((case cols of
                                        None \<Rightarrow> Some col_definition
                                      | Some c \<Rightarrow>
                                          if c = [] then Some col_definition
                                          else Some (c @ '', '' @ col_definition)),
                                     dict_relationships, st))))))))))"

section \<open>Dependency graph resolver\<close>

subsection \<open>The directed graphs of the networkx library\<close>

text \<open>
  The library networkx is not part of the repository. A \<open>DiGraph\<close> keeps its nodes and,
  for every node, its successors in insertion order, without parallel edges. It is
  modelled by the list of its nodes and the list of its edges, both in insertion
  order. \<open>add_edge\<close> adds missing end points as nodes; \<open>remove_edge\<close> raises
  \<open>NetworkXError\<close> for an edge that is not in the graph.
\<close>

type_synonym edge = "string \<times> string"

record graph =
  nodes :: "string list"
  edges :: "edge list"

definition DiGraph :: graph where
  "DiGraph = \<lparr>nodes = [], edges = []\<rparr>"

definition add_node :: "graph \<Rightarrow> string \<Rightarrow> graph" where
  "add_node g n = (if n \<in> set (nodes g) then g else g\<lparr>nodes := nodes g @ [n]\<rparr>)"

definition add_edge :: "graph \<Rightarrow> string \<Rightarrow> string \<Rightarrow> graph" where
  "add_edge g u v =
     (let g' = add_node (add_node g u) v
      in if (u, v) \<in> set (edges g') then g' else g'\<lparr>edges := edges g' @ [(u, v)]\<rparr>)"

definition remove_edge :: "graph \<Rightarrow> string \<Rightarrow> string \<Rightarrow> error + graph" where
  "remove_edge g u v =
     (if (u, v) \<in> set (edges g) then Inr (g\<lparr>edges := removeAll (u, v) (edges g)\<rparr>)
      else Inl NetworkXError)"

text \<open>\<open>G.neighbors(n)\<close>: the successors of a node, in insertion order.\<close>

definition neighbors :: "graph \<Rightarrow> string \<Rightarrow> string list" where
  "neighbors g n = remdups (map snd (filter (\<lambda>e. fst e = n) (edges g)))"

definition predecessors :: "graph \<Rightarrow> string \<Rightarrow> string list" where
  "predecessors g v = remdups (map fst (filter (\<lambda>e. snd e = v) (edges g)))"

text \<open>
  \<open>networkx.topological_sort\<close> runs Kahn's algorithm by generations: the nodes of
  in-degree zero come first, in node order; when a node is emitted the in-degree of each
  of its successors drops by one, and a successor whose in-degree reaches zero joins the
  next generation, behind the nodes already waiting. The emitted sequence is that of a
  queue. \<open>remaining_in_degree\<close> is the entry of the library's in-degree map: the number
  of predecessors not emitted yet. When no node waits and a node still has a positive
  in-degree, the library raises \<open>NetworkXUnfeasible\<close>. A run that does not return is
  \<open>None\<close>.
\<close>

definition remaining_in_degree :: "graph \<Rightarrow> string list \<Rightarrow> string \<Rightarrow> nat" where
  "remaining_in_degree g emitted v = length (filter (\<lambda>u. u \<notin> set emitted) (predecessors g v))"

partial_function (option) topological_loop :: "graph \<Rightarrow> string list \<Rightarrow> string list \<Rightarrow> string list option" where
  "topological_loop g emitted zero_indegree =
     (case zero_indegree of
        [] \<Rightarrow> Some emitted
      | n # waiting \<Rightarrow>
          topological_loop g (emitted @ [n])
            (waiting @ filter (\<lambda>child. remaining_in_degree g (emitted @ [n]) child = 0)
                         (neighbors g n)))"

definition topological_sort :: "graph \<Rightarrow> (error + string list) option" where
  "topological_sort g =
     (case topological_loop g [] (filter (\<lambda>v. remaining_in_degree g [] v = 0) (nodes g)) of
        None \<Rightarrow> None
      | Some emitted \<Rightarrow>
          if list_ex (\<lambda>v. remaining_in_degree g emitted v > 0) (nodes g)
          then Some (Inl NetworkXUnfeasible)
          else Some (Inr emitted))"

text \<open>
  \<open>networkx.is_directed_acyclic_graph\<close>: the graph is directed and
  \<open>topological_sort\<close> does not raise \<open>NetworkXUnfeasible\<close>.
\<close>

definition is_directed_acyclic_graph :: "graph \<Rightarrow> bool option" where
  "is_directed_acyclic_graph g =
     (case topological_sort g of
        None \<Rightarrow> None
      | Some (Inl e) \<Rightarrow> Some False
      | Some (Inr emitted) \<Rightarrow> Some True)"

subsection \<open>Building the graph from the CREATE TABLE statements\<close>

text \<open>
  \<open>get_table_name(instruction)\<close> with the default prefix:
  \<open>re.search("CREATE TABLE (\S+)", instruction.lstrip())\<close>, the leftmost place where the
  prefix is followed by a character that is not whitespace; the name is the longest run
  of such characters.
\<close>

fun search_table_name :: "string \<Rightarrow> string" where
  "search_table_name [] = []"
| "search_table_name (c # s) =
     (if take 13 (c # s) = ''CREATE TABLE '' \<and> takeWhile (\<lambda>x. \<not> py_isspace x) (drop 13 (c # s)) \<noteq> []
      then takeWhile (\<lambda>x. \<not> py_isspace x) (drop 13 (c # s))
      else search_table_name s)"

definition get_table_name :: "string \<Rightarrow> string" where
  "get_table_name instruction = search_table_name (lstrip instruction)"

text \<open>\<open>analize_instruction(instruction)\<close>.\<close>

definition analize_instruction :: "string \<Rightarrow> string \<times> string list" where
  "analize_instruction instruction =
     (let table_name = get_table_name instruction
      in if strip table_name = [] then ([], [])
         else
           (let array_foreign_keys = py_split ''REFERENCES'' (py_replace [CHR 0x0A] [] instruction);
                referenced_tables =
                  concat (map (\<lambda>item. let new_item = lstrip item
                                        in if CHR ''('' \<in> set new_item
                                           then [takeWhile (\<lambda>x. x \<noteq> CHR ''('') new_item]
                                           else [])
                              (tl array_foreign_keys))
            in (table_name, if referenced_tables = [] then [[]] else referenced_tables)))"

text \<open>\<open>create_graph(arr_create_tables)\<close>.\<close>

definition create_graph :: "string list \<Rightarrow> graph" where
  "create_graph arr_create_tables =
     foldl (\<lambda>graph instruction.
              case analize_instruction instruction of
                (table_name, referenced_tables) \<Rightarrow>
                  if table_name = [] then graph
                  else foldl (\<lambda>gr table_ref. add_edge gr table_name table_ref)
                             (add_node graph table_name) referenced_tables)
           DiGraph arr_create_tables"

subsection \<open>Breaking cycles\<close>

text \<open>
  Graphs are objects: \<open>graph.copy()\<close> makes a new one and \<open>remove_edge\<close> changes the
  object it is called on. The store holds the graph objects, a reference is an index
  into it. \<open>networkx.find_cycle\<close> is an argument of the model: it returns the edges of
  a cycle, and \<open>None\<close> stands for its exception \<open>NetworkXNoCycle\<close>. What \<open>print\<close>
  writes is returned as the list of the removed edges, one entry for each line.
\<close>

type_synonym store = "graph list"

definition graph_copy :: "store \<Rightarrow> nat \<Rightarrow> store \<times> nat" where
  "graph_copy h a = (h @ [h ! a], length h)"

partial_function (option) break_cycles_loop ::
  "(graph \<Rightarrow> edge list option) \<Rightarrow> store \<Rightarrow> nat \<Rightarrow> edge list \<Rightarrow> (error + store \<times> edge list) option" where
  "break_cycles_loop find_cycle h c printed =
     (case find_cycle (h ! c) of
        None \<Rightarrow> Some (Inr (h, printed))
      | Some cycle \<Rightarrow>
          (case cycle of
             [] \<Rightarrow> Some (Inl IndexError)
           | edge_to_remove # rest \<Rightarrow>
               (case remove_edge (h ! c) (fst edge_to_remove) (snd edge_to_remove) of
                  Inl e \<Rightarrow> Some (Inl e)
                | Inr g' \<Rightarrow>
                    break_cycles_loop find_cycle (h[c := g']) c (printed @ [edge_to_remove]))))"

text \<open>\<open>break_cycles(graph)\<close>: the new store, the reference it returns, and the output.\<close>

definition break_cycles ::
  "(graph \<Rightarrow> edge list option) \<Rightarrow> store \<Rightarrow> nat \<Rightarrow> (error + store \<times> nat \<times> edge list) option" where
  "break_cycles find_cycle h graph =
     (case graph_copy h graph of
        (h1, graph_copy_ref) \<Rightarrow>
          (case break_cycles_loop find_cycle h1 graph_copy_ref [] of
             None \<Rightarrow> None
           | Some (Inl e) \<Rightarrow> Some (Inl e)
           | Some (Inr (h2, printed)) \<Rightarrow> Some (Inr (h2, graph_copy_ref, printed))))"

subsection \<open>The drop order and the create order\<close>

text \<open>
  \<open>generate_sql_statements_in_topological_order()\<close>, from the list of statements
  \<open>arr_create_tables\<close> on: the graph, the cycle breaking, the test for acyclicity and the
  two orders. The result is the final graph, \<open>drop_order\<close> and \<open>create_order\<close>.
\<close>

definition table_orders ::
  "(graph \<Rightarrow> edge list option) \<Rightarrow> string list \<Rightarrow> (error + graph \<times> string list \<times> string list) option" where
  "table_orders find_cycle arr_create_tables =
     (case break_cycles find_cycle [create_graph arr_create_tables] 0 of
        None \<Rightarrow> None
      | Some (Inl e) \<Rightarrow> Some (Inl e)
      | Some (Inr (h, graph, printed)) \<Rightarrow>
          (case is_directed_acyclic_graph (h ! graph) of
             None \<Rightarrow> None
           | Some False \<Rightarrow> Some (Inl ValueError)
           | Some True \<Rightarrow>
               (case topological_sort (h ! graph) of
                  None \<Rightarrow> None
                | Some (Inl e) \<Rightarrow> Some (Inl e)
                | Some (Inr drop_order) \<Rightarrow> Some (Inr (h ! graph, drop_order, rev drop_order)))))"

section \<open>Notions used in the statements and proofs\<close>

text \<open>The three replacements of \<open>sql_normalize\<close>, for one character.\<close>

definition underscore :: "char \<Rightarrow> char" where
  "underscore c = (if c = CHR ''-'' \<or> c = CHR ''.'' \<or> c = CHR '' '' then CHR ''_'' else c)"


section \<open>Basic facts\<close>

lemma bind_err_Inl [simp]: "bind_err (Inl e) f = Inl e"
  by (simp add: bind_err_def)

lemma bind_err_Inr [simp]: "bind_err (Inr x) f = f x"
  by (simp add: bind_err_def)

lemma bind_err_eq_Inr: "bind_err m f = Inr y \<longleftrightarrow> (\<exists>x. m = Inr x \<and> f x = Inr y)"
  by (cases m) simp_all

lemma replace_from_char: "replace_from [a] [b] 0 s = map (\<lambda>x. if x = a then b else x) s"
  by (induction s) auto

lemma py_replace_char: "py_replace [a] [b] s = map (\<lambda>x. if x = a then b else x) s"
  by (simp add: py_replace_def replace_from_char)

lemma three_replacements:
  "py_replace '' '' ''_'' (py_replace ''.'' ''_'' (py_replace ''-'' ''_'' s)) = map underscore s"
  by (simp add: py_replace_char underscore_def)

lemma underscore_idem: "underscore (underscore c) = underscore c"
  by (simp add: underscore_def)

lemma underscore_space: "py_isspace (underscore c) \<Longrightarrow> py_isspace c"
  by (cases "c = CHR ''-'' \<or> c = CHR ''.'' \<or> c = CHR '' ''")
     (auto simp: underscore_def py_isspace_def)

lemma lstrip_Nil [simp]: "lstrip [] = []"
  by (simp add: lstrip_def)

lemma lstrip_map_underscore: "lstrip (map underscore (lstrip s)) = map underscore (lstrip s)"
  unfolding lstrip_def
  by (induction s) (auto dest: underscore_space)

section \<open>Identifier normalizer: stability\<close>

text \<open>
  When the prefix step does not run, \<open>sql_normalize\<close> strips leading whitespace and
  maps the three characters to the underscore.
\<close>

lemma sql_normalize_plain:
  assumes "length (dict_keys nsd) \<le> 1 \<or> (\<forall>n. ns = Some n \<longrightarrow> lstrip n = []) \<or>
           (\<forall>s. x = Some s \<longrightarrow> lstrip s = [])"
  shows "sql_normalize x ns nsd =
         Inr (map underscore (lstrip (case x of None \<Rightarrow> [] | Some s \<Rightarrow> s)))"
proof -
  let ?s = "case x of None \<Rightarrow> [] | Some s \<Rightarrow> s"
  have "lstrip ?s = [] \<Longrightarrow> lstrip (map underscore (lstrip ?s)) = []"
    by simp
  with assms show ?thesis
    by (cases ns; cases x)
       (auto simp: sql_normalize_def Let_def three_replacements lstrip_map_underscore)
qed

text \<open>
  Claim C6, as amended. Normalizing twice equals normalizing once whenever the prefix
  step does not run: at most one namespace is registered, or the namespace key is absent
  or blank, or the name is blank. Then the first normalization returns a name, and
  normalizing that name returns it again.
\<close>

theorem sql_normalize_stable:
  assumes "length (dict_keys nsd) \<le> 1 \<or> (\<forall>n. ns = Some n \<longrightarrow> lstrip n = []) \<or>
           (\<forall>s. x = Some s \<longrightarrow> lstrip s = [])"
  shows "\<exists>y. sql_normalize x ns nsd = Inr y \<and> sql_normalize (Some y) ns nsd = Inr y"
proof -
  let ?y = "map underscore (lstrip (case x of None \<Rightarrow> [] | Some s \<Rightarrow> s))"
  have first: "sql_normalize x ns nsd = Inr ?y"
    using assms by (rule sql_normalize_plain)
  have "length (dict_keys nsd) \<le> 1 \<or> (\<forall>n. ns = Some n \<longrightarrow> lstrip n = []) \<or>
        (\<forall>s. Some ?y = Some s \<longrightarrow> lstrip s = [])"
    using assms by (cases x) (auto simp: lstrip_map_underscore)
  then have "sql_normalize (Some ?y) ns nsd = Inr (map underscore (lstrip ?y))"
    using sql_normalize_plain [of nsd ns "Some ?y"] by simp
  moreover have "map underscore (lstrip ?y) = ?y"
    by (simp add: lstrip_map_underscore underscore_idem)
  ultimately show ?thesis
    using first by simp
qed

theorem sql_normalize_stable_witness:
  "\<exists>y. sql_normalize (Some '' first-name.x y'') (Some ''{u}'') [(''{u}'', ''xs:'')] = Inr y \<and>
       sql_normalize (Some y) (Some ''{u}'') [(''{u}'', ''xs:'')] = Inr y"
  using sql_normalize_stable [of "[(''{u}'', ''xs:'')]" "Some ''{u}''" "Some '' first-name.x y''"]
  by (simp add: dict_keys_def)

text \<open>
  With two namespaces registered the prefix step runs, and it runs again on its own
  result: the third scenario of the docstring of \<open>process_prefix\<close> gives
  \<open>abc_example\<close>, and normalizing that gives \<open>abc_abc_example\<close>.
\<close>

theorem sql_normalize_twice_differs:
  "sql_normalize (Some ''example'') (Some ''ns1'') [(''ns1'', ''abc:''), (''ns2'', ''def:'')]
     = Inr ''abc_example'' \<and>
   sql_normalize (Some ''abc_example'') (Some ''ns1'') [(''ns1'', ''abc:''), (''ns2'', ''def:'')]
     = Inr ''abc_abc_example''"
  by (simp add: sql_normalize_def process_prefix_def py_split1_def dict_keys_def dict_values_def
        lstrip_def py_isspace_def py_replace_def Let_def)

section \<open>Type registry: the unsupported categories\<close>

text \<open>
  Claim C7. The claim says that the lookup of an unsupported built-in type returns an
  absent result and does not raise. In the code the table binds these names to \<open>None\<close>,
  and \<open>SDict.get\<close> applies \<open>%\<close> to the value before it returns: for each of the nine
  names the lookup raises \<open>TypeError\<close>.
\<close>

theorem unsupported_lookup_raises:
  "list_all (\<lambda>k. SDict_get DEFX2SQLSERVER k = Inl TypeError) unsupported_types"
  by (simp add: unsupported_types_def SDict_get_def DEFX2SQLSERVER_def percent_self_def)

section \<open>Nullability of a column\<close>








section \<open>Table accumulator: committing twice\<close>

text \<open>
  Claim C4. A commit of columns for a table that has succeeded once leaves the whole
  state, and so the column set of the table, as it is when it is repeated.
\<close>

theorem commit_idempotent:
  assumes "create_table_in_sql_sentence cols table_name ns nsd st = Inr st1"
  shows "create_table_in_sql_sentence cols table_name ns nsd st1 = Inr st1"
proof -
  obtain pk n where pk: "create_primary_key table_name ns nsd = Inr pk"
    and n: "sql_normalize table_name ns nsd = Inr n"
    using assms by (auto simp: create_table_in_sql_sentence_def bind_err_eq_Inr)
  define new_cols where "new_cols =
     (case cols of None \<Rightarrow> [pk]
      | Some c \<Rightarrow> if lstrip c \<noteq> [] then [pk] @ py_split '', '' c else [pk])"
  define columns where "columns =
     (case TABLE_COLUMNS st n of Some existing \<Rightarrow> existing \<union> set new_cols | None \<Rightarrow> set new_cols)"
  have st1: "st1 = st\<lparr>TABLE_COLUMNS := (TABLE_COLUMNS st)(n \<mapsto> columns),
                       HASH_TABLE_TABLES_GENERATED := (HASH_TABLE_TABLES_GENERATED st)(n \<mapsto> 1)\<rparr>"
    using assms unfolding create_table_in_sql_sentence_def Let_def new_cols_def columns_def pk n
    by simp
  have again: "columns \<union> set new_cols = columns"
    by (auto simp: columns_def split: option.splits)
  have "create_table_in_sql_sentence cols table_name ns nsd st1 =
        Inr (st1\<lparr>TABLE_COLUMNS := (TABLE_COLUMNS st1)(n \<mapsto> columns \<union> set new_cols),
                 HASH_TABLE_TABLES_GENERATED := (HASH_TABLE_TABLES_GENERATED st1)(n \<mapsto> 1)\<rparr>)"
    unfolding create_table_in_sql_sentence_def Let_def new_cols_def pk n
    by (simp add: st1)
  also have "\<dots> = Inr st1"
    by (simp add: again st1)
  finally show ?thesis .
qed

theorem commit_idempotent_witness:
  "create_table_in_sql_sentence (Some ''a int NULL, b bit NOT NULL'') (Some ''Person'') (Some ''{u}'')
     [(''{u}'', ''xs:'')]
     \<lparr>TABLE_COLUMNS = [''Person'' \<mapsto> {''PersonId bigint PRIMARY KEY NOT NULL'', ''a int NULL'', ''b bit NOT NULL''}],
      HASH_TABLE_TABLES_GENERATED = [''Person'' \<mapsto> 1]\<rparr>
   = Inr \<lparr>TABLE_COLUMNS = [''Person'' \<mapsto> {''PersonId bigint PRIMARY KEY NOT NULL'', ''a int NULL'', ''b bit NOT NULL''}],
      HASH_TABLE_TABLES_GENERATED = [''Person'' \<mapsto> 1]\<rparr>"
proof -
  have first: "create_table_in_sql_sentence (Some ''a int NULL, b bit NOT NULL'') (Some ''Person'') (Some ''{u}'')
     [(''{u}'', ''xs:'')] \<lparr>TABLE_COLUMNS = Map.empty, HASH_TABLE_TABLES_GENERATED = Map.empty\<rparr>
   = Inr \<lparr>TABLE_COLUMNS = [''Person'' \<mapsto> {''PersonId bigint PRIMARY KEY NOT NULL'', ''a int NULL'', ''b bit NOT NULL''}],
      HASH_TABLE_TABLES_GENERATED = [''Person'' \<mapsto> 1]\<rparr>"
    by (simp add: create_table_in_sql_sentence_def create_primary_key_def sql_normalize_def
          dict_keys_def lstrip_def py_isspace_def py_replace_def py_split_def Let_def)
  show ?thesis
    by (rule commit_idempotent [OF first])
qed


section \<open>Table accumulator: the primary key of every table\<close>



lemma underscore_Id [simp]: "underscore CHR ''I'' = CHR ''I''" "underscore CHR ''d'' = CHR ''d''"
  by (simp_all add: underscore_def)






section \<open>Schema walker: a type without mapping\<close>

text \<open>
  Claim C5. The claim says that in lenient mode an element whose type has no mapping
  is left out and the columns accumulated so far stay as they are. In the code
  \<open>process_element\<close> reaches its end without \<open>return cols\<close>: for the element \<open>b\<close> of
  the unknown type \<open>xs:foo\<close>, with the column of \<open>a\<close> accumulated, it returns \<open>None\<close>,
  and \<open>look4element\<close> assigns that to \<open>cols\<close>; \<open>concat_cols\<close> then keeps \<open>None\<close>.
\<close>

theorem unresolved_type_returns_None:
  "process_element [''name'' \<mapsto> ''b'', ''type'' \<mapsto> ''xs:foo''] (Some ''T'') False True 0
     (Some ''a nvarchar(max) NOT NULL'') (Some ''{u}'') [] Map.empty [(''{u}'', ''xs:'')] Map.empty
     \<lparr>TABLE_COLUMNS = Map.empty, HASH_TABLE_TABLES_GENERATED = Map.empty\<rparr>
   = Inr (None, Map.empty, \<lparr>TABLE_COLUMNS = Map.empty, HASH_TABLE_TABLES_GENERATED = Map.empty\<rparr>) \<and>
   concat_cols None (Some []) = None"
  by (simp add: process_element_def concat_cols_def sql_normalize_def dict_keys_def lstrip_def py_isspace_def
        py_replace_def Let_def parent_named_def is_complex_type_def py_or_def truthy_def
        SDict_get_def DEFX2SQLSERVER_def)


end
